theory Spec2Isabelle
  imports Complex_Main
begin

section \<open>Capacity planning service: shared data model\<close>

text \<open>
  The Python sources compute with IEEE doubles; the embedding idealises them as
  \<^typ>\<open>real\<close>, so rounding, infinities and NaN are outside the model, with one
  exception: where the planner truncates a quotient or product of doubles to an
  integer capacity (\<open>get_recommendations\<close> and \<open>_generate_scenarios\<close>), the rounding
  decides which integer comes out, and every operation of those formulas is rounded
  to the nearest double by \<open>fl64\<close> below. The numeric arguments of the functions
  stand for the doubles the code receives: a decimal that is not a double, such as
  0.9, reaches the code as \<open>fl64 0.9\<close>.
  Python integers are \<^typ>\<open>int\<close>. A timestamp is a count of seconds since
  1970-01-01T00:00 (a Thursday); its ISO-8601 rendering is not modelled, and
  \<open>timedelta(hours=k)\<close> adds \<open>3600 * k\<close>.
\<close>

datatype error =
    InvalidInput string   \<comment> \<open>returned as the dictionary \<open>{'error': msg}\<close>\<close>
  | ZeroDivisionError     \<comment> \<open>raised: Python float divided by zero\<close>
  | OverflowError         \<comment> \<open>raised: \<open>int\<close> of a numpy infinity\<close>
  | ValueError string     \<comment> \<open>raised\<close>
  | IndexError            \<comment> \<open>raised: index into an empty list\<close>

record forecast_point =
  timestamp :: int
  predicted_load :: real

datatype action = scale_up | scale_down | maintain

text \<open>The strings \<open>'low'\<close>, \<open>'medium'\<close>, \<open>'high'\<close> and \<open>'critical'\<close> serve both as
  urgency and as risk level.\<close>

datatype level = low | medium | high | critical

text \<open>Python's \<open>int(x)\<close> on a float truncates towards zero.\<close>

definition py_int :: "real \<Rightarrow> int" where
  "py_int x = (if 0 \<le> x then \<lfloor>x\<rfloor> else \<lceil>x\<rceil>)"

text \<open>Rounding of a real to the nearest IEEE binary64 number, ties to the even
  significand: a non-zero \<open>x\<close> with \<open>2^e \<le> |x| < 2^(e+1)\<close> is rounded to a multiple of
  \<open>2^(e-52)\<close>. The exponent is not bounded, so overflow and subnormal numbers are
  outside the model. A double operation is the exact operation followed by \<open>fl64\<close>,
  and a decimal literal such as \<open>1.1\<close> denotes \<open>fl64 1.1\<close>.\<close>

definition pow2 :: "int \<Rightarrow> real" where
  "pow2 k = (if 0 \<le> k then 2 ^ nat k else 1 / 2 ^ nat (- k))"

definition round_half_even :: "real \<Rightarrow> int" where
  "round_half_even m =
     (let f = \<lfloor>m\<rfloor>; d = m - of_int f
      in if d < 1 / 2 then f
         else if d > 1 / 2 then f + 1
         else if even f then f else f + 1)"

definition fl64 :: "real \<Rightarrow> real" where
  "fl64 x =
     (if x = 0 then 0
      else (let e = \<lfloor>log 2 \<bar>x\<bar>\<rfloor>;
                ulp = pow2 (e - 52)
            in of_int (round_half_even (x / ulp)) * ulp))"

text \<open>\<open>np.mean\<close> and \<open>np.std\<close> (population standard deviation) of a non-empty list.\<close>

definition mean :: "real list \<Rightarrow> real" where
  "mean xs = sum_list xs / real (length xs)"

definition std :: "real list \<Rightarrow> real" where
  "std xs = sqrt (mean (map (\<lambda>x. (x - mean xs)\<^sup>2) xs))"

text \<open>Hour of day of a timestamp (\<open>.hour\<close>) and day of week with Monday = 0
  (\<open>.dayofweek\<close>).\<close>

definition hour_of :: "int \<Rightarrow> int" where
  "hour_of ts = (ts div 3600) mod 24"

definition dayofweek_of :: "int \<Rightarrow> int" where
  "dayofweek_of ts = (ts div 86400 + 3) mod 7"

section \<open>capacity\_planner.py\<close>

subsection \<open>Result dictionaries\<close>

record metrics =
  m_max_predicted_load :: real
  m_avg_predicted_load :: real
  m_min_predicted_load :: real
  m_max_utilization :: real
  m_avg_utilization :: real

text \<open>The message is an f-string; only the values formatted into it are kept, one
  constructor per template.\<close>

datatype message =
    ScaleUpMessage real real real real      \<comment> \<open>change, change\_pct, recommended, utilization\<close>
  | ScaleDownMessage real real real         \<comment> \<open>change, change\_pct, recommended\<close>
  | MaintainMessage real real               \<comment> \<open>current, utilization\<close>

record recommendation =
  rec_action :: action
  rec_urgency :: level
  rec_current_capacity :: real
  rec_recommended_capacity :: real
  rec_capacity_change :: real
  rec_capacity_change_percent :: real
  rec_metrics :: metrics
  rec_peak_hours :: "forecast_point list"
  rec_message :: message

record scenario =
  capacity :: int
  description :: string
  cost_impact :: string

record scenarios =
  conservative :: scenario
  balanced :: scenario
  aggressive :: scenario
  average_based :: scenario

subsection \<open>\<open>_generate_message\<close>\<close>

definition generate_message :: "action \<Rightarrow> level \<Rightarrow> real \<Rightarrow> real \<Rightarrow> real \<Rightarrow> message" where
  "generate_message action urgency utilization recommended current =
     (if action = scale_up then
        (let change = recommended - current;
             change_pct = (if current > 0 then change / current * 100 else 0)
         in ScaleUpMessage change change_pct recommended utilization)
      else if action = scale_down then
        (let change = current - recommended;
             change_pct = (if current > 0 then change / current * 100 else 0)
         in ScaleDownMessage change change_pct recommended)
      else MaintainMessage current utilization)"

subsection \<open>\<open>get_recommendations\<close>\<close>

text \<open>Lines 44--55 of \<open>get_recommendations\<close>: the \<open>if\<close>/\<open>elif\<close>/\<open>else\<close> block
  that sets \<open>action\<close>, \<open>urgency\<close> and \<open>recommended_capacity\<close>, as a function of
  the values it reads. The two scaling branches divide by the
  threshold: \<open>max_predicted\<close> is a Python float, so a zero threshold raises
  ZeroDivisionError; \<open>avg_predicted\<close> is a numpy float, whose quotient by zero is an
  infinity that \<open>int\<close> refuses with OverflowError. The recommended capacity is
  \<open>int\<close> of a double quotient times a double literal, each operation rounded.\<close>

definition decide ::
  "real \<Rightarrow> real \<Rightarrow> real \<Rightarrow> real \<Rightarrow> real \<Rightarrow> real \<Rightarrow> error + (action \<times> level \<times> real)" where
  "decide max_predicted avg_predicted max_utilization avg_utilization
      current_capacity scaling_threshold =
     (if max_utilization \<ge> scaling_threshold then
        (if scaling_threshold = 0 then Inl ZeroDivisionError
         else Inr (scale_up,
                   (if max_utilization \<ge> 0.95 then high else medium),
                   of_int (py_int (fl64 (fl64 (max_predicted / scaling_threshold)
                                           * fl64 1.1)))))
      else if avg_utilization < 0.3 then
        (if scaling_threshold = 0 then Inl OverflowError
         else Inr (scale_down, low,
                   of_int (py_int (fl64 (fl64 (avg_predicted / scaling_threshold)
                                           * fl64 1.2)))))
      else Inr (maintain, low, current_capacity))"

definition get_recommendations ::
  "forecast_point list \<Rightarrow> real \<Rightarrow> real \<Rightarrow> error + recommendation" where
  "get_recommendations fc current_capacity scaling_threshold =
     (if fc = [] then Inl (InvalidInput ''No forecast data provided'')
      else
        (let predicted_loads = map predicted_load fc;
             max_predicted = Max (set predicted_loads);
             avg_predicted = mean predicted_loads;
             min_predicted = Min (set predicted_loads);
             max_utilization =
               (if current_capacity > 0 then max_predicted / current_capacity else 0);
             avg_utilization =
               (if current_capacity > 0 then avg_predicted / current_capacity else 0)
         in case decide max_predicted avg_predicted max_utilization avg_utilization
                   current_capacity scaling_threshold of
              Inl e \<Rightarrow> Inl e
            | Inr (action, urgency, recommended_capacity) \<Rightarrow>
                (let peak_hours =
                       filter (\<lambda>f. predicted_load f \<ge> max_predicted * 0.9) fc
                 in Inr \<lparr> rec_action = action,
                          rec_urgency = urgency,
                          rec_current_capacity = current_capacity,
                          rec_recommended_capacity = recommended_capacity,
                          rec_capacity_change = recommended_capacity - current_capacity,
                          rec_capacity_change_percent =
                            (if current_capacity > 0
                             then (recommended_capacity - current_capacity)
                                    / current_capacity * 100
                             else 0),
                          rec_metrics =
                            \<lparr> m_max_predicted_load = max_predicted,
                              m_avg_predicted_load = avg_predicted,
                              m_min_predicted_load = min_predicted,
                              m_max_utilization = max_utilization,
                              m_avg_utilization = avg_utilization \<rparr>,
                          rec_peak_hours = take 10 peak_hours,
                          rec_message =
                            generate_message action urgency max_utilization
                              recommended_capacity current_capacity \<rparr>)))"

subsection \<open>\<open>_assess_risk\<close>\<close>

definition assess_risk :: "int \<Rightarrow> int \<Rightarrow> int \<Rightarrow> level" where
  "assess_risk critical_hours over_capacity_hours total_hours =
     (let critical_pct =
            (if total_hours > 0 then real_of_int critical_hours / real_of_int total_hours
             else 0);
          over_capacity_pct =
            (if total_hours > 0
             then real_of_int over_capacity_hours / real_of_int total_hours else 0)
      in if critical_pct > 0.1 then critical
         else if over_capacity_pct > 0.2 then high
         else if over_capacity_pct > 0.05 then medium
         else low)"

text \<open>The order on risk levels that the monotonicity property refers to.\<close>

fun risk_rank :: "level \<Rightarrow> nat" where
  "risk_rank low = 0"
| "risk_rank medium = 1"
| "risk_rank high = 2"
| "risk_rank critical = 3"

subsection \<open>\<open>_generate_scenarios\<close>\<close>

text \<open>\<open>max\<close> of an empty list raises ValueError; the first division by a zero
  threshold is of the Python float \<open>max_load\<close>. Each capacity is \<open>int\<close> of double
  operations, rounded one by one.\<close>

definition generate_scenarios ::
  "forecast_point list \<Rightarrow> real \<Rightarrow> real \<Rightarrow> error + scenarios" where
  "generate_scenarios fc current_capacity scaling_threshold =
     (let predicted_loads = map predicted_load fc
      in if predicted_loads = [] then Inl (ValueError ''max() arg is an empty sequence'')
         else
           (let max_load = Max (set predicted_loads);
                avg_load = mean predicted_loads
            in if scaling_threshold = 0 then Inl ZeroDivisionError
               else Inr
                 \<lparr> conservative =
                     \<lparr> capacity =
                         py_int (fl64 (fl64 (max_load / scaling_threshold) * fl64 1.2)),
                       description = ''20% buffer above peak load'',
                       cost_impact = ''high'' \<rparr>,
                   balanced =
                     \<lparr> capacity =
                         py_int (fl64 (fl64 (max_load / scaling_threshold) * fl64 1.1)),
                       description = ''10% buffer above peak load'',
                       cost_impact = ''medium'' \<rparr>,
                   aggressive =
                     \<lparr> capacity = py_int (fl64 (max_load / scaling_threshold)),
                       description = ''Exact capacity for peak load'',
                       cost_impact = ''low'' \<rparr>,
                   average_based =
                     \<lparr> capacity =
                         py_int (fl64 (fl64 (avg_load / scaling_threshold) * fl64 1.5)),
                       description = ''Capacity based on average load'',
                       cost_impact = ''low'' \<rparr> \<rparr>))"

subsection \<open>\<open>analyze\<close>\<close>

record summary =
  s_forecast_period_hours :: nat
  s_current_capacity :: real
  s_scaling_threshold :: real

record load_statistics =
  ls_max_load :: real
  ls_min_load :: real
  ls_avg_load :: real
  ls_std_load :: real

record utilization_statistics =
  us_max_utilization :: real
  us_avg_utilization :: real
  us_min_utilization :: real

record risk_assessment =
  ra_over_capacity_hours :: int
  ra_critical_hours :: int
  ra_under_utilized_hours :: int
  ra_risk_level :: level

record hourly =
  h_peak_hour :: int
  h_low_hour :: int
  h_avg_load_by_hour :: "(int \<times> real) list"

record analysis =
  an_summary :: summary
  an_load_statistics :: load_statistics
  an_utilization_statistics :: utilization_statistics
  an_risk_assessment :: risk_assessment
  an_hourly_patterns :: hourly
  an_recommendations :: recommendation
  an_scaling_scenarios :: scenarios

text \<open>The dictionary \<open>hourly_patterns\<close> keeps its keys in insertion order: an
  association list, a new hour going to the end.\<close>

fun add_pattern :: "(int \<times> real list) list \<Rightarrow> int \<Rightarrow> real \<Rightarrow> (int \<times> real list) list" where
  "add_pattern [] hour load = [(hour, [load])]"
| "add_pattern ((h, loads) # rest) hour load =
     (if h = hour then (h, loads @ [load]) # rest
      else (h, loads) # add_pattern rest hour load)"

text \<open>\<open>max(items, key=...)\<close> and \<open>min(items, key=...)\<close> return the first extremal
  item.\<close>

fun max_by_value :: "int \<times> real \<Rightarrow> (int \<times> real) list \<Rightarrow> int \<times> real" where
  "max_by_value best [] = best"
| "max_by_value best (x # xs) = max_by_value (if snd x > snd best then x else best) xs"

fun min_by_value :: "int \<times> real \<Rightarrow> (int \<times> real) list \<Rightarrow> int \<times> real" where
  "min_by_value best [] = best"
| "min_by_value best (x # xs) = min_by_value (if snd x < snd best then x else best) xs"

text \<open>Line 109 divides every load, a Python float, by \<open>current_capacity\<close> with no
  guard: a zero capacity raises ZeroDivisionError there.\<close>

definition analyze :: "forecast_point list \<Rightarrow> real \<Rightarrow> real \<Rightarrow> error + analysis" where
  "analyze fc current_capacity scaling_threshold =
     (if fc = [] then Inl (InvalidInput ''No forecast data provided'')
      else
        (let predicted_loads = map predicted_load fc;
             max_load = Max (set predicted_loads);
             min_load = Min (set predicted_loads);
             avg_load = mean predicted_loads;
             std_load = std predicted_loads
         in if current_capacity = 0 then Inl ZeroDivisionError
            else
              (let utilizations = map (\<lambda>load. load / current_capacity) predicted_loads;
                   max_util = Max (set utilizations);
                   avg_util = mean utilizations;
                   min_util = Min (set utilizations);
                   over_capacity_hours =
                     int (length (filter (\<lambda>u. u \<ge> scaling_threshold) utilizations));
                   critical_hours = int (length (filter (\<lambda>u. u \<ge> 0.95) utilizations));
                   under_utilized_hours = int (length (filter (\<lambda>u. u < 0.3) utilizations));
                   hourly_patterns =
                     foldl (\<lambda>hp f. add_pattern hp (hour_of (timestamp f)) (predicted_load f))
                       [] fc;
                   avg_by_hour = map (\<lambda>(hour, loads). (hour, mean loads)) hourly_patterns;
                   peak_hour = fst (max_by_value (hd avg_by_hour) (tl avg_by_hour));
                   low_hour = fst (min_by_value (hd avg_by_hour) (tl avg_by_hour))
               in case get_recommendations fc current_capacity scaling_threshold of
                    Inl e \<Rightarrow> Inl e
                  | Inr recommendations \<Rightarrow>
                     (case generate_scenarios fc current_capacity scaling_threshold of
                        Inl e \<Rightarrow> Inl e
                      | Inr scaling_scenarios \<Rightarrow>
                          Inr \<lparr> an_summary =
                                  \<lparr> s_forecast_period_hours = length fc,
                                    s_current_capacity = current_capacity,
                                    s_scaling_threshold = scaling_threshold \<rparr>,
                                an_load_statistics =
                                  \<lparr> ls_max_load = max_load, ls_min_load = min_load,
                                    ls_avg_load = avg_load, ls_std_load = std_load \<rparr>,
                                an_utilization_statistics =
                                  \<lparr> us_max_utilization = max_util,
                                    us_avg_utilization = avg_util,
                                    us_min_utilization = min_util \<rparr>,
                                an_risk_assessment =
                                  \<lparr> ra_over_capacity_hours = over_capacity_hours,
                                    ra_critical_hours = critical_hours,
                                    ra_under_utilized_hours = under_utilized_hours,
                                    ra_risk_level =
                                      assess_risk critical_hours over_capacity_hours
                                        (int (length fc)) \<rparr>,
                                an_hourly_patterns =
                                  \<lparr> h_peak_hour = peak_hour, h_low_hour = low_hour,
                                    h_avg_load_by_hour = avg_by_hour \<rparr>,
                                an_recommendations = recommendations,
                                an_scaling_scenarios = scaling_scenarios \<rparr>))))"

section \<open>model\_service.py\<close>

text \<open>
  The trained network and the two fitted scalers are loaded from files that are not
  part of the sources: they are parameters of the service. The network maps one
  sequence of feature rows to a scalar; the target scaler acts on rows of three
  magnitudes, the time scaler on rows of two time features.
\<close>

record model_service =
  is_model_loaded :: bool
  model :: "real list list \<Rightarrow> real"
  target_transform :: "real \<times> real \<times> real \<Rightarrow> real \<times> real \<times> real"
  target_inverse_transform :: "real \<times> real \<times> real \<Rightarrow> real \<times> real \<times> real"
  time_transform :: "real \<times> real \<Rightarrow> real \<times> real"

definition seq_length :: nat where
  "seq_length = 48"

subsection \<open>\<open>_prepare_features\<close>\<close>

record feature_vector =
  fv_current_count :: real
  fv_lag_24 :: real
  fv_lag_168 :: real
  fv_hour :: real
  fv_dayofweek :: real

text \<open>Lines 99--108: the unscaled row \<open>features\<close>. Indexing an empty history
  raises IndexError; \<open>historical_counts[-k]\<close> on a list of at least \<open>k\<close> elements
  is the element at \<open>len - k\<close>.\<close>

definition features_array :: "int \<Rightarrow> real list \<Rightarrow> error + feature_vector" where
  "features_array ts historical_counts =
     (let hour = hour_of ts;
          dayofweek = dayofweek_of ts
      in if historical_counts = [] then Inl IndexError
         else
           (let lag_24 =
                  (if length historical_counts \<ge> 24
                   then historical_counts ! (length historical_counts - 24)
                   else last historical_counts);
                lag_168 =
                  (if length historical_counts \<ge> 168
                   then historical_counts ! (length historical_counts - 168)
                   else last historical_counts);
                current_count = last historical_counts
            in Inr \<lparr> fv_current_count = current_count, fv_lag_24 = lag_24,
                     fv_lag_168 = lag_168, fv_hour = of_int hour,
                     fv_dayofweek = of_int dayofweek \<rparr>))"

text \<open>Lines 110--113: the two scalers applied to the row, and the scaled parts put
  side by side.\<close>

definition scale_features :: "model_service \<Rightarrow> feature_vector \<Rightarrow> real list" where
  "scale_features svc features =
     (let scaled_counts =
            target_transform svc
              (fv_current_count features, fv_lag_24 features, fv_lag_168 features);
          scaled_time = time_transform svc (fv_hour features, fv_dayofweek features)
      in [fst scaled_counts, fst (snd scaled_counts), snd (snd scaled_counts),
          fst scaled_time, snd scaled_time])"

definition prepare_features :: "model_service \<Rightarrow> int \<Rightarrow> real list \<Rightarrow> error + real list" where
  "prepare_features svc ts historical_counts =
     (case features_array ts historical_counts of
        Inl e \<Rightarrow> Inl e
      | Inr features \<Rightarrow> Inr (scale_features svc features))"

subsection \<open>\<open>_generate_historical_data\<close>\<close>

text \<open>\<open>noise k\<close> is the \<open>k\<close>-th draw of \<open>np.random.normal(0, 0.1)\<close>.\<close>

definition generate_historical_data :: "int \<Rightarrow> real option \<Rightarrow> (nat \<Rightarrow> real) \<Rightarrow> real list" where
  "generate_historical_data start_timestamp current_load noise =
     (let hours_back = 200;
          timestamps =
            map (\<lambda>k. start_timestamp - 3600 * hours_back + 3600 * int k) [0..<200];
          base_load = (case current_load of Some c \<Rightarrow> c | None \<Rightarrow> 1000)
      in map (\<lambda>k.
            (let ts = timestamps ! k;
                 hour_factor = 1.0 + 0.3 * sin (2 * pi * of_int (hour_of ts) / 24);
                 day_factor = 1.0 + 0.2 * sin (2 * pi * of_int (dayofweek_of ts) / 7)
             in max 100 (base_load * hour_factor * day_factor * (1 + noise k))))
           [0..<200])"

subsection \<open>\<open>forecast\<close>\<close>

record forecast_result =
  fr_forecast :: "forecast_point list"
  fr_hours_ahead :: int
  fr_start_timestamp :: int

text \<open>A list of results, stopping at the first one that raised.\<close>

fun collect :: "(error + 'a) list \<Rightarrow> error + 'a list" where
  "collect [] = Inr []"
| "collect (Inl e # rs) = Inl e"
| "collect (Inr x # rs) = (case collect rs of Inl e \<Rightarrow> Inl e | Inr xs \<Rightarrow> Inr (x # xs))"

text \<open>Lines 192--197: the rows of the model input. Every row is encoded from the
  whole \<open>context\<close>; only the time differs from row to row.\<close>

definition sequence_features :: "model_service \<Rightarrow> int \<Rightarrow> real list \<Rightarrow> error + real list list" where
  "sequence_features svc forecast_time context =
     collect (map (\<lambda>j. let seq_time = forecast_time - 3600 * int (seq_length - j)
                        in prepare_features svc seq_time context)
                [0..<seq_length])"

text \<open>One pass of the loop body (lines 179--214) on the loop state
  \<open>(context, forecast_timestamps, forecast_values)\<close>. The values \<open>features\<close> and
  \<open>padded_context\<close> are computed and not used afterwards.\<close>

definition forecast_step ::
  "model_service \<Rightarrow> int \<Rightarrow> real list \<times> int list \<times> real list \<Rightarrow> nat
     \<Rightarrow> error + real list \<times> int list \<times> real list" where
  "forecast_step svc start_timestamp state i =
     (case state of (context, forecast_timestamps, forecast_values) \<Rightarrow>
        (let forecast_time = start_timestamp + 3600 * int i
         in case prepare_features svc forecast_time context of
              Inl e \<Rightarrow> Inl e
            | Inr features \<Rightarrow>
               (let padded_context =
                      (if length context < seq_length
                       then context @ replicate (seq_length - length context) (last context)
                       else drop (length context - seq_length) context)
                in case sequence_features svc forecast_time context of
                     Inl e \<Rightarrow> Inl e
                   | Inr seq_features \<Rightarrow>
                      (let pred = model svc seq_features;
                           pred_inv = fst (target_inverse_transform svc (pred, 0, 0));
                           pred_inv = max 0 pred_inv
                       in Inr (context @ [pred_inv],
                               forecast_timestamps @ [forecast_time],
                               forecast_values @ [pred_inv])))))"

fun forecast_loop ::
  "model_service \<Rightarrow> int \<Rightarrow> real list \<times> int list \<times> real list \<Rightarrow> nat list
     \<Rightarrow> error + real list \<times> int list \<times> real list" where
  "forecast_loop svc start_timestamp state [] = Inr state"
| "forecast_loop svc start_timestamp state (i # rest) =
     (case forecast_step svc start_timestamp state i of
        Inl e \<Rightarrow> Inl e
      | Inr state' \<Rightarrow> forecast_loop svc start_timestamp state' rest)"

text \<open>\<open>now\<close> is the reading of the clock, used when no start is given; \<open>range\<close> of
  a negative \<open>hours_ahead\<close> is empty.\<close>

definition forecast ::
  "model_service \<Rightarrow> int \<Rightarrow> (nat \<Rightarrow> real) \<Rightarrow> int \<Rightarrow> real option \<Rightarrow> int option
     \<Rightarrow> error + forecast_result" where
  "forecast svc now noise hours_ahead current_load start_timestamp =
     (if \<not> is_model_loaded svc
      then Inl (ValueError ''Model not loaded. Please ensure model files exist.'')
      else
        (let start = (case start_timestamp of None \<Rightarrow> now | Some t \<Rightarrow> t);
             historical_counts = generate_historical_data start current_load noise;
             context = historical_counts
         in case forecast_loop svc start (context, [], []) [0..<nat hours_ahead] of
              Inl e \<Rightarrow> Inl e
            | Inr (context', forecast_timestamps, forecast_values) \<Rightarrow>
                Inr \<lparr> fr_forecast =
                        map (\<lambda>(ts, val). \<lparr> timestamp = ts, predicted_load = val \<rparr>)
                          (zip forecast_timestamps forecast_values),
                      fr_hours_ahead = hours_ahead,
                      fr_start_timestamp = start \<rparr>))"

section \<open>Properties of the capacity advisor\<close>

subsection \<open>Auxiliary facts\<close>

lemma py_int_mono:
  assumes "x \<le> y"
  shows "py_int x \<le> py_int y"
proof (cases "0 \<le> x")
  case True
  with assms have "0 \<le> y" by simp
  with True assms show ?thesis by (simp add: py_int_def floor_mono)
next
  case neg: False
  show ?thesis
  proof (cases "0 \<le> y")
    case True
    from neg have c: "\<lceil>x\<rceil> \<le> 0" by (simp add: ceiling_le_zero)
    from True have f: "0 \<le> \<lfloor>y\<rfloor>" by simp
    from c f have "\<lceil>x\<rceil> \<le> \<lfloor>y\<rfloor>" by (rule order_trans)
    then show ?thesis using neg True by (simp add: py_int_def)
  next
    case False
    with neg assms show ?thesis by (simp add: py_int_def ceiling_mono)
  qed
qed

subsection \<open>Rounding to a double\<close>

lemma pow2_powr: "pow2 k = 2 powr (real_of_int k)"
  by (simp add: pow2_def powr_real_of_int inverse_eq_divide)

lemma pow2_pos: "0 < pow2 k"
  by (simp add: pow2_def)

lemma fl64_eval:
  assumes "pow2 e \<le> \<bar>x\<bar>" "\<bar>x\<bar> < pow2 (e + 1)"
  shows "fl64 x = of_int (round_half_even (x / pow2 (e - 52))) * pow2 (e - 52)"
proof -
  have pos: "0 < \<bar>x\<bar>" using assms(1) pow2_pos[of e] by linarith
  then have nz: "x \<noteq> 0" by auto
  have "\<lfloor>log 2 \<bar>x\<bar>\<rfloor> = e"
    using assms pos by (simp add: floor_log_eq_powr_iff pow2_powr)
  with nz show ?thesis by (simp add: fl64_def Let_def)
qed

lemma fl64_literal_11: "fl64 1.1 = 2476979795053773 / 2251799813685248"
  by (subst fl64_eval[where e = 0]) (simp_all add: pow2_def round_half_even_def Let_def)

lemma fl64_literal_12: "fl64 1.2 = 5404319552844595 / 4503599627370496"
  by (subst fl64_eval[where e = 0]) (simp_all add: pow2_def round_half_even_def Let_def)



lemma fl64_literal_09: "fl64 0.9 = 8106479329266893 / 9007199254740992"
  by (subst fl64_eval[where e = "-1"]) (simp_all add: pow2_def round_half_even_def Let_def)

lemma capacity_3: "py_int (fl64 (fl64 (3 / fl64 0.9) * fl64 1.2)) = 3"
proof -
  have q: "fl64 (3 / (8106479329266893 / 9007199254740992)) = 7505999378950826 / 2251799813685248"
    by (subst fl64_eval[where e = 1]) (simp_all add: pow2_def round_half_even_def Let_def)
  have p: "fl64 (7505999378950826 / 2251799813685248 * (5404319552844595 / 4503599627370496))
             = 9007199254740991 / 2251799813685248"
    by (subst fl64_eval[where e = 1]) (simp_all add: pow2_def round_half_even_def Let_def)
  show ?thesis
    unfolding fl64_literal_09 q fl64_literal_12 p by (simp add: py_int_def)
qed

lemma pow2_add: "pow2 (a + b) = pow2 a * pow2 b"
  by (simp add: pow2_powr powr_add)

lemma pow2_split: "pow2 a = pow2 b * pow2 (a - b)"
  using pow2_add[of b "a - b"] by simp

lemma pow2_mono: "a \<le> b \<Longrightarrow> pow2 a \<le> pow2 b"
  by (simp add: pow2_powr)

lemma pow2_52: "pow2 52 = 4503599627370496" "pow2 53 = 9007199254740992"
  by (simp_all add: pow2_def)

lemma exponent_bounds:
  assumes "0 < x"
  shows "pow2 \<lfloor>log 2 x\<rfloor> \<le> x" "x < pow2 (\<lfloor>log 2 x\<rfloor> + 1)"
  using assms floor_log_eq_powr_iff[of x 2 "\<lfloor>log 2 x\<rfloor>"]
  by (simp_all add: pow2_powr)

lemma round_half_even_ge: "of_int a \<le> m \<Longrightarrow> a \<le> round_half_even m"
proof -
  assume "of_int a \<le> m"
  then have "a \<le> \<lfloor>m\<rfloor>" by (simp add: le_floor_iff)
  then show ?thesis by (simp add: round_half_even_def Let_def)
qed

lemma round_half_even_le: "m \<le> of_int b \<Longrightarrow> round_half_even m \<le> b"
proof -
  assume b: "m \<le> of_int b"
  then have f: "\<lfloor>m\<rfloor> \<le> b" by (simp add: floor_le_iff)
  show ?thesis
  proof (cases "\<lfloor>m\<rfloor> = b")
    case True
    with b have "m - of_int \<lfloor>m\<rfloor> \<le> 0" by simp
    then show ?thesis using True by (simp add: round_half_even_def Let_def)
  next
    case False
    with f have "\<lfloor>m\<rfloor> + 1 \<le> b" by simp
    then show ?thesis by (simp add: round_half_even_def Let_def)
  qed
qed

lemma round_half_even_int: "round_half_even (of_int k) = k"
  by (simp add: round_half_even_def)

lemma round_half_even_mono:
  assumes "m \<le> m'"
  shows "round_half_even m \<le> round_half_even m'"
proof (cases "\<lfloor>m\<rfloor> = \<lfloor>m'\<rfloor>")
  case True
  with assms have "m - of_int \<lfloor>m\<rfloor> \<le> m' - of_int \<lfloor>m'\<rfloor>" by simp
  with True show ?thesis by (auto simp add: round_half_even_def Let_def)
next
  case False
  with assms have "\<lfloor>m\<rfloor> < \<lfloor>m'\<rfloor>" using floor_mono[OF assms] by linarith
  then have "\<lfloor>m\<rfloor> + 1 \<le> \<lfloor>m'\<rfloor>" by simp
  moreover have "round_half_even m \<le> \<lfloor>m\<rfloor> + 1" by (simp add: round_half_even_def Let_def)
  moreover have "\<lfloor>m'\<rfloor> \<le> round_half_even m'" by (simp add: round_half_even_def Let_def)
  ultimately show ?thesis by linarith
qed

lemma fl64_bounds:
  assumes "pow2 e \<le> x" "x < pow2 (e + 1)"
  shows "pow2 e \<le> fl64 x" "fl64 x \<le> pow2 (e + 1)"
proof -
  have x: "0 < x" using assms(1) pow2_pos[of e] by linarith
  have ev: "fl64 x = of_int (round_half_even (x / pow2 (e - 52))) * pow2 (e - 52)"
    using assms x by (intro fl64_eval) simp_all
  have u: "0 < pow2 (e - 52)" by (rule pow2_pos)
  have e1: "pow2 e = 4503599627370496 * pow2 (e - 52)"
    using pow2_split[of e 52] by (simp only: pow2_52)
  have "e + 1 - 53 = e - 52" by simp
  then have e2: "pow2 (e + 1) = 9007199254740992 * pow2 (e - 52)"
    using pow2_split[of "e + 1" 53] by (simp only: pow2_52)
  have "of_int 4503599627370496 \<le> x / pow2 (e - 52)"
    using assms(1) u by (simp add: e1 le_divide_eq)
  then have lo: "4503599627370496 \<le> round_half_even (x / pow2 (e - 52))"
    by (rule round_half_even_ge)
  have "x / pow2 (e - 52) \<le> of_int 9007199254740992"
    using assms(2) u by (simp add: e2 divide_le_eq)
  then have hi: "round_half_even (x / pow2 (e - 52)) \<le> 9007199254740992"
    by (rule round_half_even_le)
  from lo have "4503599627370496 \<le> real_of_int (round_half_even (x / pow2 (e - 52)))" by linarith
  then show "pow2 e \<le> fl64 x"
    unfolding ev e1 using u by (simp add: mult_right_mono)
  from hi have "real_of_int (round_half_even (x / pow2 (e - 52))) \<le> 9007199254740992" by linarith
  then show "fl64 x \<le> pow2 (e + 1)"
    unfolding ev e2 using u by (simp add: mult_right_mono)
qed

lemma fl64_mono_pos:
  assumes "0 < x" "x \<le> y"
  shows "fl64 x \<le> fl64 y"
proof -
  let ?e = "\<lfloor>log 2 x\<rfloor>" and ?f = "\<lfloor>log 2 y\<rfloor>"
  have y: "0 < y" using assms by linarith
  note bx = exponent_bounds[OF assms(1)] and by' = exponent_bounds[OF y]
  have ef: "?e \<le> ?f" using assms by (intro floor_mono) simp
  show ?thesis
  proof (cases "?e = ?f")
    case True
    have u: "0 < pow2 (?e - 52)" by (rule pow2_pos)
    have ex: "fl64 x = of_int (round_half_even (x / pow2 (?e - 52))) * pow2 (?e - 52)"
      using bx assms(1) by (intro fl64_eval) simp_all
    have ey: "fl64 y = of_int (round_half_even (y / pow2 (?e - 52))) * pow2 (?e - 52)"
      using by' y True by (intro fl64_eval) simp_all
    have "x / pow2 (?e - 52) \<le> y / pow2 (?e - 52)"
      using assms(2) u by (simp add: divide_right_mono)
    then have "round_half_even (x / pow2 (?e - 52)) \<le> round_half_even (y / pow2 (?e - 52))"
      by (rule round_half_even_mono)
    then have "real_of_int (round_half_even (x / pow2 (?e - 52)))
                 \<le> real_of_int (round_half_even (y / pow2 (?e - 52)))" by linarith
    then show ?thesis unfolding ex ey using u by (simp add: mult_right_mono)
  next
    case False
    with ef have "?e + 1 \<le> ?f" by linarith
    then have "pow2 (?e + 1) \<le> pow2 ?f" by (rule pow2_mono)
    moreover have "fl64 x \<le> pow2 (?e + 1)" using fl64_bounds(2)[OF bx] .
    moreover have "pow2 ?f \<le> fl64 y" using fl64_bounds(1)[OF by'] .
    ultimately show ?thesis by linarith
  qed
qed

lemma fl64_idem_pos:
  assumes "0 < x"
  shows "fl64 (fl64 x) = fl64 x"
proof -
  let ?e = "\<lfloor>log 2 x\<rfloor>"
  let ?k = "round_half_even (x / pow2 (?e - 52))"
  note bx = exponent_bounds[OF assms]
  have u: "0 < pow2 (?e - 52)" by (rule pow2_pos)
  have ex: "fl64 x = of_int ?k * pow2 (?e - 52)"
    using bx assms by (intro fl64_eval) simp_all
  note b = fl64_bounds[OF bx]
  show ?thesis
  proof (cases "fl64 x < pow2 (?e + 1)")
    case True
    have "fl64 (fl64 x) = of_int (round_half_even (fl64 x / pow2 (?e - 52))) * pow2 (?e - 52)"
      using b(1) True pow2_pos[of ?e] by (intro fl64_eval) simp_all
    also have "fl64 x / pow2 (?e - 52) = of_int ?k" using u by (simp add: ex)
    finally show ?thesis by (simp add: round_half_even_int ex)
  next
    case False
    with b(2) have eq: "fl64 x = pow2 (?e + 1)" by linarith
    have "pow2 (?e + 1) < pow2 (?e + 1 + 1)"
      using pow2_add[of "?e + 1" 1] pow2_pos[of "?e + 1"] by (simp add: pow2_def)
    then have "fl64 (pow2 (?e + 1)) =
        of_int (round_half_even (pow2 (?e + 1) / pow2 (?e + 1 - 52))) * pow2 (?e + 1 - 52)"
      using pow2_pos[of "?e + 1"] by (intro fl64_eval) simp_all
    moreover have sp: "pow2 (?e + 1) = of_int 4503599627370496 * pow2 (?e + 1 - 52)"
      using pow2_split[of "?e + 1" 52] by (simp only: pow2_52 of_int_numeral)
    then have "pow2 (?e + 1) / pow2 (?e + 1 - 52) = of_int 4503599627370496"
      using pow2_pos[of "?e + 1 - 52"] by (simp add: field_simps)
    ultimately have "fl64 (pow2 (?e + 1)) = of_int 4503599627370496 * pow2 (?e + 1 - 52)"
      by (simp only: round_half_even_int)
    also have "\<dots> = pow2 (?e + 1)"
      by (rule sp[symmetric])
    finally show ?thesis by (simp add: eq)
  qed
qed

lemma fl64_pos:
  assumes "0 < x"
  shows "0 < fl64 x"
  using fl64_bounds(1)[OF exponent_bounds[OF assms]] pow2_pos[of "\<lfloor>log 2 x\<rfloor>"]
  by linarith

lemma sum_list_le_Max: "xs \<noteq> [] \<Longrightarrow> sum_list xs \<le> real (length xs) * Max (set xs)"
proof -
  assume "xs \<noteq> []"
  have "sum_list xs \<le> sum_list (map (\<lambda>_. Max (set xs)) xs)"
    by (rule sum_list_mono[of xs "\<lambda>x. x", simplified]) simp
  then show ?thesis by (simp add: sum_list_triv)
qed

lemma mean_le_Max: "xs \<noteq> [] \<Longrightarrow> mean xs \<le> Max (set xs)"
  using sum_list_le_Max[of xs] by (simp add: mean_def divide_le_eq mult.commute)

lemma decide_Inr:
  "scaling_threshold \<noteq> 0 \<Longrightarrow>
   decide mp ap mu au cc scaling_threshold =
     Inr (if mu \<ge> scaling_threshold then scale_up
          else if au < 0.3 then scale_down else maintain,
          if mu \<ge> scaling_threshold then (if mu \<ge> 0.95 then high else medium) else low,
          if mu \<ge> scaling_threshold
          then of_int (py_int (fl64 (fl64 (mp / scaling_threshold) * fl64 1.1)))
          else if au < 0.3
          then of_int (py_int (fl64 (fl64 (ap / scaling_threshold) * fl64 1.2))) else cc)"
  by (simp add: decide_def)

lemma decide_zero_raises:
  "au \<le> mu \<Longrightarrow>
   decide mp ap mu au cc 0 = Inl ZeroDivisionError \<or> decide mp ap mu au cc 0 = Inl OverflowError"
  by (auto simp add: decide_def)

lemma get_recommendations_returns:
  assumes "fc \<noteq> []" "scaling_threshold \<noteq> 0"
  shows "\<exists>r. get_recommendations fc current_capacity scaling_threshold = Inr r"
  using assms by (simp add: get_recommendations_def Let_def decide_Inr)


lemma get_recommendations_zero_threshold:
  assumes "fc \<noteq> []"
  shows "get_recommendations fc current_capacity 0 = Inl ZeroDivisionError \<or>
         get_recommendations fc current_capacity 0 = Inl OverflowError"
proof -
  let ?mp = "Max (set (map predicted_load fc))" and ?ap = "mean (map predicted_load fc)"
  let ?mu = "if current_capacity > 0 then ?mp / current_capacity else 0"
  let ?au = "if current_capacity > 0 then ?ap / current_capacity else 0"
  have "?ap \<le> ?mp"
    using assms by (intro mean_le_Max) simp
  then have "?au \<le> ?mu"
    by (simp add: divide_right_mono)
  from decide_zero_raises[OF this, of ?mp ?ap current_capacity]
  show ?thesis using assms
    unfolding get_recommendations_def Let_def by (auto simp del: set_map)
qed

subsection \<open>The decision rule\<close>





subsection \<open>The recommended capacity\<close>





text \<open>A threshold given as 0.9 reaches the code as the double nearest to 0.9; with
  load 3 the capacity is 3, the exact value of \<open>3 / 0.9 * 1.2\<close> being 4.\<close>

lemma recommended_capacity_double_threshold:
  "\<exists>r. get_recommendations [\<lparr>timestamp = 0, predicted_load = 3\<rparr>] 1000 (fl64 0.9) = Inr r \<and>
       rec_action r = scale_down \<and> rec_recommended_capacity r = 3"
proof -
  have t: "(0::real) < fl64 0.9" "\<not> (3::real) / 1000 \<ge> fl64 0.9"
    unfolding fl64_literal_09 by simp_all
  have c: "py_int (fl64 (fl64 (3 / fl64 (9 / 10)) * fl64 (6 / 5))) = 3"
    using capacity_3 by simp
  show ?thesis
    using t c by (simp add: get_recommendations_def decide_def mean_def Let_def)
qed

subsection \<open>Error results\<close>

text \<open>
  C10, as stated, at a zero threshold: the forecast is not empty, and what comes back
  is a raised ZeroDivisionError, not a recommendation.
\<close>

theorem nonempty_forecast_raises_counterexample:
  "[\<lparr>timestamp = 0, predicted_load = 100\<rparr>] \<noteq> [] \<and>
   get_recommendations [\<lparr>timestamp = 0, predicted_load = 100\<rparr>] 5000 0
     = Inl ZeroDivisionError"
  by (simp add: get_recommendations_def decide_def mean_def Let_def)

text \<open>
  C10 (amended): \<open>get_recommendations\<close> gives the InvalidInput error result if and only
  if the forecast is empty; for every non-empty forecast and every non-zero scaling
  threshold it returns a recommendation holding action, urgency, the current and the
  recommended capacity with their difference, the load and utilization metrics, the
  first ten peak hours and the message; for a non-empty forecast and a zero threshold
  it raises a division error instead.
\<close>

theorem get_recommendations_invalid_input_iff:
  "((\<exists>msg. get_recommendations fc current_capacity scaling_threshold = Inl (InvalidInput msg))
      \<longleftrightarrow> fc = []) \<and>
   (fc \<noteq> [] \<and> scaling_threshold \<noteq> 0 \<longrightarrow>
      (\<exists>r. get_recommendations fc current_capacity scaling_threshold = Inr r \<and>
           rec_current_capacity r = current_capacity \<and>
           rec_capacity_change r = rec_recommended_capacity r - current_capacity \<and>
           rec_message r = generate_message (rec_action r) (rec_urgency r)
              (m_max_utilization (rec_metrics r)) (rec_recommended_capacity r)
              current_capacity \<and>
           m_max_predicted_load (rec_metrics r) = Max (set (map predicted_load fc)) \<and>
           m_avg_predicted_load (rec_metrics r) = mean (map predicted_load fc) \<and>
           m_min_predicted_load (rec_metrics r) = Min (set (map predicted_load fc)) \<and>
           rec_peak_hours r =
             take 10 (filter (\<lambda>f. predicted_load f
                                   \<ge> Max (set (map predicted_load fc)) * 0.9) fc))) \<and>
   (fc \<noteq> [] \<and> scaling_threshold = 0 \<longrightarrow>
      get_recommendations fc current_capacity scaling_threshold = Inl ZeroDivisionError \<or>
      get_recommendations fc current_capacity scaling_threshold = Inl OverflowError)"
proof (intro conjI impI)
  show "(\<exists>msg. get_recommendations fc current_capacity scaling_threshold
                  = Inl (InvalidInput msg)) \<longleftrightarrow> fc = []"
  proof (cases "fc = []")
    case True
    then show ?thesis by (simp add: get_recommendations_def)
  next
    case False
    show ?thesis
    proof (cases "scaling_threshold = 0")
      case True
      with False get_recommendations_zero_threshold[of fc current_capacity]
      show ?thesis by auto
    next
      case nz: False
      with False get_recommendations_returns[of fc scaling_threshold current_capacity]
      show ?thesis by auto
    qed
  qed
next
  assume a: "fc \<noteq> [] \<and> scaling_threshold \<noteq> 0"
  then show "\<exists>r. get_recommendations fc current_capacity scaling_threshold = Inr r \<and>
           rec_current_capacity r = current_capacity \<and>
           rec_capacity_change r = rec_recommended_capacity r - current_capacity \<and>
           rec_message r = generate_message (rec_action r) (rec_urgency r)
              (m_max_utilization (rec_metrics r)) (rec_recommended_capacity r)
              current_capacity \<and>
           m_max_predicted_load (rec_metrics r) = Max (set (map predicted_load fc)) \<and>
           m_avg_predicted_load (rec_metrics r) = mean (map predicted_load fc) \<and>
           m_min_predicted_load (rec_metrics r) = Min (set (map predicted_load fc)) \<and>
           rec_peak_hours r =
             take 10 (filter (\<lambda>f. predicted_load f
                                   \<ge> Max (set (map predicted_load fc)) * 0.9) fc)"
    by (simp add: get_recommendations_def Let_def decide_Inr)
next
  assume "fc \<noteq> [] \<and> scaling_threshold = 0"
  then show
    "get_recommendations fc current_capacity scaling_threshold = Inl ZeroDivisionError \<or>
     get_recommendations fc current_capacity scaling_threshold = Inl OverflowError"
    using get_recommendations_zero_threshold[of fc current_capacity] by simp
qed

theorem get_recommendations_invalid_input_iff_witness:
  "(\<exists>r. get_recommendations [\<lparr>timestamp = 0, predicted_load = 1000\<rparr>] 5000 0.8 = Inr r
       \<and> rec_current_capacity r = 5000) \<and>
   get_recommendations [] 5000 0.8 = Inl (InvalidInput ''No forecast data provided'') \<and>
   get_recommendations [\<lparr>timestamp = 0, predicted_load = 1000\<rparr>] 5000 0
     = Inl ZeroDivisionError"
proof -
  have 1: "\<exists>r. get_recommendations [\<lparr>timestamp = 0, predicted_load = 1000\<rparr>] 5000 0.8 = Inr r
       \<and> rec_current_capacity r = 5000"
    using get_recommendations_invalid_input_iff
            [of "[\<lparr>timestamp = 0, predicted_load = 1000\<rparr>]" 5000 "0.8"]
    by auto
  have 2: "get_recommendations [] 5000 0.8 = Inl (InvalidInput ''No forecast data provided'')"
    by (simp add: get_recommendations_def)
  have 3: "get_recommendations [\<lparr>timestamp = 0, predicted_load = 1000\<rparr>] 5000 0
             = Inl ZeroDivisionError"
    by (simp add: get_recommendations_def decide_def mean_def Let_def)
  from 1 2 3 show ?thesis by blast
qed

subsection \<open>Non-positive capacity\<close>

text \<open>What \<open>get_recommendations\<close> does under its guard, for a positive threshold:
  both utilizations are 0, the action is scale\_down and the percentage is 0.\<close>

lemma get_recommendations_guarded:
  assumes "fc \<noteq> []" "current_capacity \<le> 0" "0 < scaling_threshold"
  shows "\<exists>r. get_recommendations fc current_capacity scaling_threshold = Inr r \<and>
     m_max_utilization (rec_metrics r) = 0 \<and> m_avg_utilization (rec_metrics r) = 0 \<and>
     rec_action r = scale_down \<and> rec_capacity_change_percent r = 0"
  using assms by (simp add: get_recommendations_def Let_def decide_def)

text \<open>\<open>analyze\<close> on a zero capacity raises for every non-empty forecast, and on a
  negative capacity it reports a negative utilization of its own next to the guarded
  0 of the nested recommendation.\<close>

lemma analyze_zero_capacity:
  "fc \<noteq> [] \<Longrightarrow> analyze fc 0 scaling_threshold = Inl ZeroDivisionError"
  by (simp add: analyze_def Let_def)

lemma analyze_negative_capacity:
  "\<exists>a. analyze [\<lparr>timestamp = 0, predicted_load = 100\<rparr>] (- 1000) 0.8 = Inr a \<and>
       us_max_utilization (an_utilization_statistics a) = - 0.1 \<and>
       m_max_utilization (rec_metrics (an_recommendations a)) = 0"
  by (simp add: analyze_def get_recommendations_def decide_def generate_scenarios_def
      mean_def Let_def)

text \<open>
  C7 says that, for a non-empty forecast and a current capacity of at most 0, both
  \<open>get_recommendations\<close> and \<open>analyze\<close> take the utilizations to be 0 and do not
  raise a division error. \<open>analyze\<close> has no such guard: on one point of load 100 with
  capacity 0 and threshold 0.8 it raises ZeroDivisionError.
\<close>

theorem analyze_zero_capacity_raises:
  "analyze [\<lparr>timestamp = 0, predicted_load = 100\<rparr>] 0 0.8 = Inl ZeroDivisionError"
  by (simp add: analyze_def Let_def)

subsection \<open>Scenarios\<close>

text \<open>
  C8: for every forecast whose maximal load is positive and every positive scaling
  threshold (in particular every threshold in (0, 1], the average load never exceeding
  the maximal one), the scenarios are generated and the conservative capacity is at
  least the balanced capacity, which is at least the aggressive capacity.
\<close>

theorem scenario_monotonicity:
  assumes "fc \<noteq> []" "0 < Max (set (map predicted_load fc))" "0 < scaling_threshold"
  shows "\<exists>s. generate_scenarios fc current_capacity scaling_threshold = Inr s \<and>
     capacity (conservative s) \<ge> capacity (balanced s) \<and>
     capacity (balanced s) \<ge> capacity (aggressive s)"
proof -
  let ?x = "Max (set (map predicted_load fc)) / scaling_threshold"
  let ?q = "fl64 ?x"
  have x: "0 < ?x" using assms by simp
  then have q: "0 < ?q" by (rule fl64_pos)
  have c: "1 \<le> fl64 1.1" "fl64 1.1 \<le> fl64 1.2"
    unfolding fl64_literal_11 fl64_literal_12 by simp_all
  have "?q \<le> ?q * fl64 1.1" using q c(1) by simp
  then have "fl64 ?q \<le> fl64 (?q * fl64 1.1)" using q by (intro fl64_mono_pos)
  then have 1: "?q \<le> fl64 (?q * fl64 1.1)" by (simp only: fl64_idem_pos[OF x])
  have p: "0 < ?q * fl64 1.1" using q c(1) by simp
  have "?q * fl64 1.1 \<le> ?q * fl64 1.2" using q c(2) by simp
  then have 2: "fl64 (?q * fl64 1.1) \<le> fl64 (?q * fl64 1.2)" using p by (intro fl64_mono_pos)
  from 1 2 have "py_int ?q \<le> py_int (fl64 (?q * fl64 1.1))"
    "py_int (fl64 (?q * fl64 1.1)) \<le> py_int (fl64 (?q * fl64 1.2))"
    by (simp_all only: py_int_mono)
  then show ?thesis using assms(1,3) by (simp add: generate_scenarios_def Let_def)
qed

theorem scenario_monotonicity_witness:
  "\<exists>s. generate_scenarios [\<lparr>timestamp = 0, predicted_load = 4000\<rparr>,
                            \<lparr>timestamp = 3600, predicted_load = 3000\<rparr>] 5000 0.8 = Inr s \<and>
     capacity (conservative s) \<ge> capacity (balanced s) \<and>
     capacity (balanced s) \<ge> capacity (aggressive s)"
  using scenario_monotonicity[of "[\<lparr>timestamp = 0, predicted_load = 4000\<rparr>,
                \<lparr>timestamp = 3600, predicted_load = 3000\<rparr>]" "0.8" 5000]
  by simp

subsection \<open>Risk level\<close>

text \<open>
  C9: for every positive number of total hours and every number of over-capacity
  hours, raising the number of critical hours with the other two fixed never lowers
  the assessed risk level in the order low < medium < high < critical.
\<close>

theorem risk_monotone_in_critical_hours:
  assumes "0 < total_hours" "critical_hours \<le> critical_hours'"
  shows "risk_rank (assess_risk critical_hours over_capacity_hours total_hours)
         \<le> risk_rank (assess_risk critical_hours' over_capacity_hours total_hours)"
  using assms by (auto simp add: assess_risk_def Let_def)

theorem risk_monotone_in_critical_hours_witness:
  "risk_rank (assess_risk 2 3 24) \<le> risk_rank (assess_risk 3 3 24) \<and>
   assess_risk 2 3 24 = medium \<and> assess_risk 3 3 24 = critical"
  using risk_monotone_in_critical_hours[of 24 2 3 3] by (simp add: assess_risk_def)

section \<open>Properties of the forecasting service\<close>

subsection \<open>Auxiliary facts\<close>

lemma features_array_Inr:
  "historical_counts \<noteq> [] \<Longrightarrow>
   features_array ts historical_counts =
     Inr \<lparr> fv_current_count = last historical_counts,
           fv_lag_24 = (if length historical_counts \<ge> 24
                        then historical_counts ! (length historical_counts - 24)
                        else last historical_counts),
           fv_lag_168 = (if length historical_counts \<ge> 168
                         then historical_counts ! (length historical_counts - 168)
                         else last historical_counts),
           fv_hour = of_int (hour_of ts),
           fv_dayofweek = of_int (dayofweek_of ts) \<rparr>"
  by (simp add: features_array_def Let_def)

lemma prepare_features_Inr:
  "context \<noteq> [] \<Longrightarrow> \<exists>row. prepare_features svc ts context = Inr row"
  by (simp add: prepare_features_def features_array_Inr)

lemma collect_map_Inr:
  "(\<And>x. x \<in> set xs \<Longrightarrow> f x = Inr (g x)) \<Longrightarrow> collect (map f xs) = Inr (map g xs)"
  by (induction xs) simp_all

lemma sequence_features_Inr:
  assumes "context \<noteq> []"
  shows "sequence_features svc forecast_time context =
     Inr (map (\<lambda>j. scale_features svc
            \<lparr> fv_current_count = last context,
              fv_lag_24 = (if length context \<ge> 24 then context ! (length context - 24)
                           else last context),
              fv_lag_168 = (if length context \<ge> 168 then context ! (length context - 168)
                            else last context),
              fv_hour = of_int (hour_of (forecast_time - 3600 * int (seq_length - j))),
              fv_dayofweek = of_int (dayofweek_of (forecast_time - 3600 * int (seq_length - j))) \<rparr>)
          [0..<seq_length])"
  unfolding sequence_features_def Let_def
  by (rule collect_map_Inr) (simp add: prepare_features_def features_array_Inr[OF assms])

lemma forecast_step_Inr:
  assumes "context \<noteq> []"
  shows "\<exists>v. 0 \<le> v \<and>
     forecast_step svc start (context, tss, vals) i =
       Inr (context @ [v], tss @ [start + 3600 * int i], vals @ [v])"
proof -
  obtain row where row: "prepare_features svc (start + 3600 * int i) context = Inr row"
    using prepare_features_Inr[OF assms] by blast
  obtain sf where sf: "sequence_features svc (start + 3600 * int i) context = Inr sf"
    using sequence_features_Inr[OF assms] by blast
  show ?thesis
    by (rule exI[of _ "max 0 (fst (target_inverse_transform svc (model svc sf, 0, 0)))"])
       (simp add: forecast_step_def Let_def row sf)
qed

lemma forecast_loop_Inr:
  assumes "ctx \<noteq> []"
  shows "\<exists>new. length new = length steps \<and> (\<forall>v\<in>set new. 0 \<le> v) \<and>
     forecast_loop svc start (ctx, tss, vals) steps =
       Inr (ctx @ new, tss @ map (\<lambda>i. start + 3600 * int i) steps, vals @ new)"
  using assms
proof (induction steps arbitrary: ctx tss vals)
  case Nil
  then show ?case by simp
next
  case (Cons i rest)
  from forecast_step_Inr[OF Cons.prems, of svc start tss vals i] obtain v where
    v: "0 \<le> v" and
    st: "forecast_step svc start (ctx, tss, vals) i =
       Inr (ctx @ [v], tss @ [start + 3600 * int i], vals @ [v])"
    by blast
  have ne: "ctx @ [v] \<noteq> []" by simp
  from Cons.IH[OF ne, of "tss @ [start + 3600 * int i]" "vals @ [v]"] obtain new where
    n: "length new = length rest" "\<forall>v\<in>set new. 0 \<le> v" and
    lp: "forecast_loop svc start (ctx @ [v], tss @ [start + 3600 * int i], vals @ [v]) rest =
       Inr ((ctx @ [v]) @ new, (tss @ [start + 3600 * int i]) @ map (\<lambda>i. start + 3600 * int i) rest,
            (vals @ [v]) @ new)"
    by blast
  show ?case
    by (rule exI[of _ "v # new"]) (simp add: st lp n v)
qed

lemma length_generate_historical_data:
  "length (generate_historical_data start current_load noise) = 200"
  by (simp add: generate_historical_data_def Let_def)

lemma generate_historical_data_floor:
  "\<forall>x \<in> set (generate_historical_data start current_load noise). 100 \<le> x"
  by (auto simp add: generate_historical_data_def Let_def)

lemma forecast_returns:
  assumes "is_model_loaded svc"
  shows "\<exists>new. length new = nat hours_ahead \<and> (\<forall>v\<in>set new. 0 \<le> v) \<and>
     forecast_loop svc (case start_timestamp of None \<Rightarrow> now | Some t \<Rightarrow> t)
        (generate_historical_data (case start_timestamp of None \<Rightarrow> now | Some t \<Rightarrow> t)
           current_load noise, [], [])
        [0..<nat hours_ahead]
       = Inr (generate_historical_data (case start_timestamp of None \<Rightarrow> now | Some t \<Rightarrow> t)
                current_load noise @ new,
              map (\<lambda>i. (case start_timestamp of None \<Rightarrow> now | Some t \<Rightarrow> t) + 3600 * int i)
                [0..<nat hours_ahead],
              new) \<and>
     forecast svc now noise hours_ahead current_load start_timestamp =
       Inr \<lparr> fr_forecast =
               map (\<lambda>(ts, val). \<lparr> timestamp = ts, predicted_load = val \<rparr>)
                 (zip (map (\<lambda>i. (case start_timestamp of None \<Rightarrow> now | Some t \<Rightarrow> t)
                                   + 3600 * int i) [0..<nat hours_ahead]) new),
             fr_hours_ahead = hours_ahead,
             fr_start_timestamp = (case start_timestamp of None \<Rightarrow> now | Some t \<Rightarrow> t) \<rparr>"
proof -
  let ?start = "case start_timestamp of None \<Rightarrow> now | Some t \<Rightarrow> t"
  let ?hist = "generate_historical_data ?start current_load noise"
  have ne: "?hist \<noteq> []"
    using length_generate_historical_data[of ?start current_load noise] by auto
  from forecast_loop_Inr[OF ne, of "[0..<nat hours_ahead]" svc ?start "[]" "[]"]
  obtain new where n: "length new = nat hours_ahead" "\<forall>v\<in>set new. 0 \<le> v"
    and lp: "forecast_loop svc ?start (?hist, [], []) [0..<nat hours_ahead]
       = Inr (?hist @ new, map (\<lambda>i. ?start + 3600 * int i) [0..<nat hours_ahead], new)"
    by auto
  show ?thesis
    apply (rule exI[of _ new])
    using n lp assms by (simp add: forecast_def Let_def)
qed

lemma map_timestamp_zip:
  "length tss = length vals \<Longrightarrow>
   map timestamp (map (\<lambda>(ts, val). \<lparr> timestamp = ts, predicted_load = val \<rparr>) (zip tss vals)) = tss"
  by (induction tss vals rule: list_induct2) simp_all

lemma map_load_zip:
  "length tss = length vals \<Longrightarrow>
   map predicted_load (map (\<lambda>(ts, val). \<lparr> timestamp = ts, predicted_load = val \<rparr>) (zip tss vals)) = vals"
  by (induction tss vals rule: list_induct2) simp_all

lemma hourly_strict: "sorted_wrt (<) (map (\<lambda>i. (start::int) + 3600 * int i) [0..<n])"
  by (simp add: sorted_wrt_map sorted_wrt_iff_nth_less)

subsection \<open>Shape of the forecast\<close>

text \<open>
  C3: with the model loaded, for every \<open>hours_ahead\<close> of at least 1 and every
  resolved start timestamp (the given one, or the clock reading when none is given),
  \<open>forecast\<close> returns a list of exactly \<open>hours_ahead\<close> points whose timestamps are
  the start timestamp plus 0, 1, 2, ... hours, hence strictly increasing in steps of
  one hour and beginning at the start timestamp, together with \<open>hours_ahead\<close> and the
  start timestamp.
\<close>

theorem forecast_hourly_points:
  assumes "is_model_loaded svc" "1 \<le> hours_ahead"
  shows "\<exists>r. forecast svc now noise hours_ahead current_load start_timestamp = Inr r \<and>
     length (fr_forecast r) = nat hours_ahead \<and>
     map timestamp (fr_forecast r) =
       map (\<lambda>i. (case start_timestamp of None \<Rightarrow> now | Some t \<Rightarrow> t) + 3600 * int i)
         [0..<nat hours_ahead] \<and>
     sorted_wrt (<) (map timestamp (fr_forecast r)) \<and>
     timestamp (hd (fr_forecast r)) = (case start_timestamp of None \<Rightarrow> now | Some t \<Rightarrow> t) \<and>
     fr_hours_ahead r = hours_ahead \<and>
     fr_start_timestamp r = (case start_timestamp of None \<Rightarrow> now | Some t \<Rightarrow> t)"
proof -
  let ?start = "case start_timestamp of None \<Rightarrow> now | Some t \<Rightarrow> t"
  let ?tss = "map (\<lambda>i. ?start + 3600 * int i) [0..<nat hours_ahead]"
  from forecast_returns[OF assms(1), where hours_ahead = hours_ahead and start_timestamp = start_timestamp
      and now = now and current_load = current_load and noise = noise]
  obtain new where n: "length new = nat hours_ahead"
    and f: "forecast svc now noise hours_ahead current_load start_timestamp =
       Inr \<lparr> fr_forecast = map (\<lambda>(ts, val). \<lparr> timestamp = ts, predicted_load = val \<rparr>) (zip ?tss new),
             fr_hours_ahead = hours_ahead, fr_start_timestamp = ?start \<rparr>"
    by blast
  let ?pts = "map (\<lambda>(ts, val). \<lparr> timestamp = ts, predicted_load = val \<rparr>) (zip ?tss new)"
  have len: "length ?tss = length new" using n by simp
  have ts: "map timestamp ?pts = ?tss" by (rule map_timestamp_zip[OF len])
  have l: "length ?pts = nat hours_ahead" using n by simp
  have pos: "0 < nat hours_ahead" using assms(2) by simp
  have ne: "?pts \<noteq> []" using l pos by auto
  have "timestamp (hd ?pts) = hd (map timestamp ?pts)"
    by (rule hd_map[OF ne, symmetric])
  also have "\<dots> = hd ?tss" by (simp only: ts)
  also have "\<dots> = ?start" using pos by (simp add: hd_map upt_conv_Cons)
  finally have h: "timestamp (hd ?pts) = ?start" .
  have s: "sorted_wrt (<) (map timestamp ?pts)"
    unfolding ts by (rule hourly_strict)
  show ?thesis
    apply (rule exI[of _ "\<lparr> fr_forecast = ?pts, fr_hours_ahead = hours_ahead, fr_start_timestamp = ?start \<rparr>"])
    using f l ts h s by simp
qed

theorem forecast_hourly_points_witness:
  "\<exists>r. forecast \<lparr> is_model_loaded = True, model = (\<lambda>rows. 1),
                   target_transform = (\<lambda>x. x), target_inverse_transform = (\<lambda>x. x),
                   time_transform = (\<lambda>x. x) \<rparr>
          0 (\<lambda>k. 0) 3 None (Some 172800) = Inr r \<and>
       map timestamp (fr_forecast r) = [172800, 176400, 180000] \<and>
       fr_hours_ahead r = 3 \<and> fr_start_timestamp r = 172800"
  using forecast_hourly_points[of "\<lparr> is_model_loaded = True, model = (\<lambda>rows. 1),
                   target_transform = (\<lambda>x. x), target_inverse_transform = (\<lambda>x. x),
                   time_transform = (\<lambda>x. x) \<rparr>" 3 0 "\<lambda>k. 0" None "Some 172800"]
  by (auto simp add: upt_conv_Cons)

subsection \<open>Non-negative loads\<close>

text \<open>
  C6: with the model loaded, for every \<open>hours_ahead\<close> of at least 1 and whatever the
  model and the inverse scaler return, \<open>forecast\<close> returns a forecast all of whose
  predicted loads are at least 0; the loop ends with the history followed by exactly
  these clamped values as its context.
\<close>

theorem forecast_loads_nonnegative:
  assumes "is_model_loaded svc" "1 \<le> hours_ahead"
  shows "\<exists>r context' tss vals.
     forecast svc now noise hours_ahead current_load start_timestamp = Inr r \<and>
     (\<forall>p \<in> set (fr_forecast r). 0 \<le> predicted_load p) \<and>
     forecast_loop svc (case start_timestamp of None \<Rightarrow> now | Some t \<Rightarrow> t)
        (generate_historical_data (case start_timestamp of None \<Rightarrow> now | Some t \<Rightarrow> t)
           current_load noise, [], [])
        [0..<nat hours_ahead] = Inr (context', tss, vals) \<and>
     context' = generate_historical_data (case start_timestamp of None \<Rightarrow> now | Some t \<Rightarrow> t)
                  current_load noise @ vals \<and>
     vals = map predicted_load (fr_forecast r) \<and>
     (\<forall>v \<in> set vals. 0 \<le> v)"
proof -
  let ?start = "case start_timestamp of None \<Rightarrow> now | Some t \<Rightarrow> t"
  let ?tss = "map (\<lambda>i. ?start + 3600 * int i) [0..<nat hours_ahead]"
  let ?hist = "generate_historical_data ?start current_load noise"
  from forecast_returns[OF assms(1), where hours_ahead = hours_ahead and start_timestamp = start_timestamp
      and now = now and current_load = current_load and noise = noise]
  obtain new where n: "length new = nat hours_ahead" and nn: "\<forall>v\<in>set new. 0 \<le> v"
    and lp: "forecast_loop svc ?start (?hist, [], []) [0..<nat hours_ahead] = Inr (?hist @ new, ?tss, new)"
    and f: "forecast svc now noise hours_ahead current_load start_timestamp =
       Inr \<lparr> fr_forecast = map (\<lambda>(ts, val). \<lparr> timestamp = ts, predicted_load = val \<rparr>) (zip ?tss new),
             fr_hours_ahead = hours_ahead, fr_start_timestamp = ?start \<rparr>"
    by blast
  let ?pts = "map (\<lambda>(ts, val). \<lparr> timestamp = ts, predicted_load = val \<rparr>) (zip ?tss new)"
  have len: "length ?tss = length new" using n by simp
  have ld: "map predicted_load ?pts = new" by (rule map_load_zip[OF len])
  have "\<forall>p \<in> set ?pts. 0 \<le> predicted_load p"
  proof
    fix p assume "p \<in> set ?pts"
    then have "predicted_load p \<in> set (map predicted_load ?pts)" by (simp only: set_map image_eqI)
    with ld nn show "0 \<le> predicted_load p" by simp
  qed
  with f lp ld nn show ?thesis
    by (intro exI[of _ "\<lparr> fr_forecast = ?pts, fr_hours_ahead = hours_ahead, fr_start_timestamp = ?start \<rparr>"]
          exI[of _ "?hist @ new"] exI[of _ ?tss] exI[of _ new]) simp
qed

text \<open>A model that always predicts \<open>-5\<close> under an identity scaler: the forecast is
  non-negative, and one pass of the loop on the context \<open>[150]\<close> emits and appends 0.\<close>

theorem forecast_loads_nonnegative_witness:
  "(\<exists>r. forecast \<lparr> is_model_loaded = True, model = (\<lambda>rows. - 5),
                   target_transform = (\<lambda>x. x), target_inverse_transform = (\<lambda>x. x),
                   time_transform = (\<lambda>x. x) \<rparr>
          0 (\<lambda>k. 0) 2 (Some 1000) None = Inr r \<and>
       (\<forall>p \<in> set (fr_forecast r). 0 \<le> predicted_load p)) \<and>
   forecast_step \<lparr> is_model_loaded = True, model = (\<lambda>rows. - 5),
                   target_transform = (\<lambda>x. x), target_inverse_transform = (\<lambda>x. x),
                   time_transform = (\<lambda>x. x) \<rparr> 0 ([150], [], []) 0
     = Inr ([150, 0], [0], [0])"
proof -
  let ?svc = "\<lparr> is_model_loaded = True, model = (\<lambda>rows. - 5),
                   target_transform = (\<lambda>x. x), target_inverse_transform = (\<lambda>x. x),
                   time_transform = (\<lambda>x. x) \<rparr>"
  have 1: "\<exists>r. forecast ?svc 0 (\<lambda>k. 0) 2 (Some 1000) None = Inr r \<and>
       (\<forall>p \<in> set (fr_forecast r). 0 \<le> predicted_load p)"
    using forecast_loads_nonnegative[of ?svc 2 0 "\<lambda>k. 0" "Some 1000" None] by auto
  have 2: "forecast_step ?svc 0 ([150], [], []) 0 = Inr ([150, 0], [0], [0])"
    by (simp add: forecast_step_def Let_def prepare_features_def features_array_Inr
        sequence_features_Inr)
  from 1 2 show ?thesis by blast
qed

subsection \<open>Lag fallback\<close>

text \<open>
  C5, as stated, on the history \<open>[120, 250]\<close>, which has fewer than 24 points: both
  lags are 250, the last point, whereas the earliest point is 120.
\<close>

theorem lag_fallback_earliest_counterexample:
  "features_array 0 [120, 250] =
     Inr \<lparr> fv_current_count = 250, fv_lag_24 = 250, fv_lag_168 = 250,
           fv_hour = 0, fv_dayofweek = 3 \<rparr>
   \<and> hd [120, 250 :: real] = 120 \<and> length [120, 250 :: real] < 24"
  by (simp add: features_array_def hour_of_def dayofweek_of_def)

text \<open>
  C5 (amended): for every non-empty raw history shorter than 24 (respectively 168)
  points, the feature encoder's lag\_24 (respectively lag\_168) falls back to the most
  recent point of the history, its last element, which is also the current count;
  the encoder returns this row scaled.
\<close>

theorem lag_fallback_most_recent:
  assumes "historical_counts \<noteq> []"
  shows "\<exists>features. features_array ts historical_counts = Inr features \<and>
     prepare_features svc ts historical_counts = Inr (scale_features svc features) \<and>
     (length historical_counts < 24 \<longrightarrow> fv_lag_24 features = last historical_counts) \<and>
     (length historical_counts < 168 \<longrightarrow> fv_lag_168 features = last historical_counts)"
  using assms by (simp add: prepare_features_def features_array_Inr)

theorem lag_fallback_most_recent_witness:
  "\<exists>features. features_array 0 [120, 250] = Inr features \<and>
     fv_lag_24 features = 250 \<and> fv_lag_168 features = 250"
  using lag_fallback_most_recent[of "[120, 250]" 0] by auto

subsection \<open>Rows of the model input\<close>

text \<open>
  C4 says that each of the 48 rows of the model input gets lag features of its own,
  derived from its place in the window. On the 200-point context 101, 102, ..., 300
  with identity scalers, every row carries the same three magnitudes 300, 277 and 133,
  those of the final point (\<open>context[-1]\<close>, \<open>context[-24]\<close>, \<open>context[-168]\<close>); only
  the hour and the day of week change from row to row.
\<close>

theorem sequence_rows_share_final_lags:
  "sequence_features
     \<lparr> is_model_loaded = True, model = (\<lambda>rows. 0),
       target_transform = (\<lambda>x. x), target_inverse_transform = (\<lambda>x. x),
       time_transform = (\<lambda>x. x) \<rparr>
     172800 (map real [101..<301])
   = Inr (map (\<lambda>j. [300, 277, 133,
                     real_of_int (hour_of (172800 - 3600 * int (48 - j))),
                     real_of_int (dayofweek_of (172800 - 3600 * int (48 - j)))])
            [0..<48])"
proof -
  have ne: "map real [101..<301] \<noteq> []" by simp
  have l: "last (map real [101..<301]) = 300"
    by (simp add: last_map)
  have n: "length (map real [101..<301]) = 200" by simp
  have a: "map real [101..<301] ! 176 = 277" "map real [101..<301] ! 32 = 133"
    by simp_all
  show ?thesis
    unfolding sequence_features_Inr[OF ne] n l
    by (simp add: a scale_features_def seq_length_def)
qed

end
